theory Spec2Isabelle
  imports Complex_Main
begin

section \<open>Units, values and messages\<close>

text \<open>
  The enumeration \<open>unit_types\<close> is declared in \<open>unitval.hpp\<close>; the members listed are the
  ones that the source files name (\<open>U_PGC\<close> in \<open>csv_fluxpool_visitor.cpp\<close>,
  \<open>U_UNDEFINED\<close> in \<open>rcpp_hector.cpp\<close>, the others in \<open>main-api.cpp\<close>).
  A C++ \<open>double\<close> is idealised as a \<open>real\<close>: rounding and NaN are not modelled.
\<close>

datatype unit_types = U_UNDEFINED | U_PGC | U_PGC_YR | U_GG_S | U_TG | U_GG

text \<open>The failures of the engine, \<open>h_exception\<close> in the source, by the kinds the
  specification names.\<close>

datatype h_exception =
    UnitMismatch | UnknownUnit | UnknownCapability | AmbiguousCapability
  | InstanceInvalid | SpinupDivergence | UnsupportedReset | NegativePool

record unitval =
  valUnits :: real
  unitsUnits :: unit_types

record message_data =
  msg_date :: real
  msg_value :: unitval

section \<open>The tracked pool\<close>

text \<open>
  Modelled from the spec: class \<open>fluxpool\<close> (\<open>fluxpool.hpp\<close>) is not among the source
  files; only its use in \<open>CSVFluxPoolVisitor::print_pool\<close> is. The record and the
  operations below follow the specification's sections 3 and 4.2. The fraction map is an
  association list, so that \<open>get_sources\<close> has a stable order.
\<close>

type_synonym fractions = "(string \<times> real) list"

record fluxpool =
  name :: string
  magnitude :: real
  units :: unit_types
  tracking :: bool
  ctmap :: fractions

text \<open>Modelled from the spec: \<open>value(targetUnit)\<close> returns the magnitude and fails with
  UnitMismatch for another unit (the specification gives no conversion table).\<close>

definition value_in :: "fluxpool \<Rightarrow> unit_types \<Rightarrow> h_exception + real" where
  "value_in x u = (if units x = u then Inr (magnitude x) else Inl UnitMismatch)"

text \<open>Modelled from the spec: \<open>get_fraction(sourceName)\<close> returns that source's fraction,
  or zero if absent.\<close>

definition fraction_of :: "fractions \<Rightarrow> string \<Rightarrow> real" where
  "fraction_of m s = (case map_of m s of None \<Rightarrow> 0 | Some f \<Rightarrow> f)"

definition get_fraction :: "fluxpool \<Rightarrow> string \<Rightarrow> real" where
  "get_fraction x s = fraction_of (ctmap x) s"

text \<open>Modelled from the spec: \<open>get_sources()\<close> returns the source names with non-zero
  fraction, in insertion order.\<close>

definition get_sources :: "fluxpool \<Rightarrow> string list" where
  "get_sources x = filter (\<lambda>s. get_fraction x s \<noteq> 0) (map fst (ctmap x))"

text \<open>Modelled from the spec: a pool is created with an initial magnitude and, if
  tracking is enabled, a fraction map that attributes all of it to the pool's own name.\<close>

definition new_fluxpool :: "real \<Rightarrow> unit_types \<Rightarrow> bool \<Rightarrow> string \<Rightarrow> fluxpool" where
  "new_fluxpool v u track nm =
     \<lparr>name = nm, magnitude = v, units = u, tracking = track,
      ctmap = (if track then [(nm, 1)] else [])\<rparr>"

text \<open>Modelled from the spec: \<open>add(flow, sourceAttribution)\<close> increases the magnitude
  (unit-checked) and, if tracking is enabled, recomputes the fraction of every source
  \<open>i\<close> present in either map as
  \<open>(oldFraction_i * oldMagnitude + incomingFraction_i * flowMagnitude) / newMagnitude\<close>.
  It fails with UnitMismatch only. Where the new magnitude is zero the quotient is the
  one of HOL, zero; the pool is empty then.\<close>

definition add :: "fluxpool \<Rightarrow> unitval \<Rightarrow> fractions \<Rightarrow> h_exception + fluxpool" where
  "add p flow attribution =
     (if unitsUnits flow \<noteq> units p then Inl UnitMismatch
      else
        let oldMagnitude = magnitude p;
            flowMagnitude = valUnits flow;
            newMagnitude = oldMagnitude + flowMagnitude
        in if \<not> tracking p then Inr (p\<lparr>magnitude := newMagnitude\<rparr>)
           else Inr (p\<lparr>magnitude := newMagnitude,
                       ctmap :=
                         map (\<lambda>i. (i, (get_fraction p i * oldMagnitude
                                        + fraction_of attribution i * flowMagnitude)
                                       / newMagnitude))
                           (remdups (map fst (ctmap p) @ map fst attribution))\<rparr>))"









section \<open>The flux-pool visitor (\<open>csv_fluxpool_visitor.cpp\<close>)\<close>

text \<open>
  The stream \<open>csvFile\<close> is a list of lines, a line the list of its \<open>DELIMITER\<close>-separated
  cells. How a number or a unit tag is printed is not modelled: a cell keeps the value
  that was streamed. \<open>datestring\<close> keeps the date that \<open>lexical_cast\<close> was given; it is
  the empty string until \<open>shouldVisit\<close> has run.
\<close>

datatype cell = Str string | Num real | UnitTag unit_types

record 'c CSVFluxPoolVisitor =
  csvFile :: "cell list list"
  datestring :: cell
  run_name :: string
  core :: "'c option"

text \<open>Of class \<open>SimpleNbox\<close> the visitor reads the component name and the two pools.\<close>

record SimpleNbox =
  componentName :: string
  atmos_c :: fluxpool
  earth_c :: fluxpool

definition CSVFluxPoolVisitor_new :: "cell list list \<Rightarrow> bool \<Rightarrow> 'c CSVFluxPoolVisitor" where
  "CSVFluxPoolVisitor_new outputStream printHeader =
     \<lparr>csvFile =
        (if printHeader
         then outputStream @ [[Str ''year'', Str ''pool_name'', Str ''pool_value'',
                               Str ''pool_units'', Str ''source_name'', Str ''source_fraction'']]
         else outputStream),
      datestring = Str '''', run_name = '''', core = None\<rparr>"

definition shouldVisit ::
  "'c CSVFluxPoolVisitor \<Rightarrow> bool \<Rightarrow> real \<Rightarrow> 'c CSVFluxPoolVisitor \<times> bool" where
  "shouldVisit v in_spinup d = (v\<lparr>datestring := Num d\<rparr>, \<not> in_spinup)"

text \<open>\<open>visit(Core* c)\<close>; \<open>getRun_name\<close> is a method of the core and a parameter here.\<close>

definition visit_Core ::
  "('c \<Rightarrow> string) \<Rightarrow> 'c CSVFluxPoolVisitor \<Rightarrow> 'c \<Rightarrow> 'c CSVFluxPoolVisitor" where
  "visit_Core getRun_name v c = v\<lparr>run_name := getRun_name c, core := Some c\<rparr>"

text \<open>The cells that the loop over \<open>sources\<close> appends.\<close>

fun source_cells :: "fluxpool \<Rightarrow> string list \<Rightarrow> cell list" where
  "source_cells x [] = []"
| "source_cells x (s # sources) = Str s # Num (get_fraction x s) # source_cells x sources"

text \<open>\<open>print_pool\<close> streams \<open>x.value(U_PGC)\<close>, which throws for a pool in another
  unit; what the stream holds after the throw is not modelled.\<close>

datatype visit_error = Thrown h_exception | NoCore

definition print_pool ::
  "'c CSVFluxPoolVisitor \<Rightarrow> fluxpool \<Rightarrow> visit_error + 'c CSVFluxPoolVisitor" where
  "print_pool v x =
     (if tracking x then
        (case value_in x U_PGC of
           Inl e \<Rightarrow> Inl (Thrown e)
         | Inr pgc \<Rightarrow>
             Inr (v\<lparr>csvFile := csvFile v @
                    [[datestring v, Str (name x), Num pgc, UnitTag (units x)]
                     @ source_cells x (get_sources x)]\<rparr>))
      else Inr v)"

text \<open>\<open>visit(SimpleNbox* c)\<close>; \<open>outputEnabled\<close> is a method of the core and a parameter
  here. The member \<open>core\<close> is a pointer that \<open>visit(Core*)\<close> sets: reading it before is
  the failure \<open>NoCore\<close>.\<close>

definition visit_SimpleNbox ::
  "('c \<Rightarrow> string \<Rightarrow> bool) \<Rightarrow> 'c CSVFluxPoolVisitor \<Rightarrow> SimpleNbox
     \<Rightarrow> visit_error + 'c CSVFluxPoolVisitor" where
  "visit_SimpleNbox outputEnabled v c =
     (case core v of
        None \<Rightarrow> Inl NoCore
      | Some k \<Rightarrow>
          if \<not> outputEnabled k (componentName c) then Inr v
          else (case print_pool v (atmos_c c) of
                  Inl e \<Rightarrow> Inl e
                | Inr v' \<Rightarrow> print_pool v' (earth_c c)))"

text \<open>
  Modelled from the spec: the notification of a visitor by \<open>Core::run\<close>, which is not
  among the source files. At each stepped date the core calls \<open>shouldVisit\<close> and then,
  only if that returned true, \<open>visit\<close> (sections 4.4 and 6). A step is the pair of the
  spin-up flag and the date; the second component of the result lists the dates at which
  \<open>visit\<close> was called, in order.
\<close>

fun notify_visitor ::
  "('c \<Rightarrow> string) \<Rightarrow> 'c \<Rightarrow> 'c CSVFluxPoolVisitor \<Rightarrow> (bool \<times> real) list
     \<Rightarrow> 'c CSVFluxPoolVisitor \<times> real list" where
  "notify_visitor getRun_name c v [] = (v, [])"
| "notify_visitor getRun_name c v ((in_spinup, d) # steps) =
     (case shouldVisit v in_spinup d of
        (v', True) \<Rightarrow>
          (case notify_visitor getRun_name c (visit_Core getRun_name v' c) steps of
             (v'', visited) \<Rightarrow> (v'', d # visited))
      | (v', False) \<Rightarrow> notify_visitor getRun_name c v' steps)"

section \<open>The R interface (\<open>rcpp_hector.cpp\<close>)\<close>

text \<open>
  Class \<open>Core\<close> is not among the source files. The wrappers are embedded over any core:
  the type \<open>'c\<close> is the state of one instance and the record \<open>hector\<close> holds the methods
  that the wrappers call. A method returns the state it leaves behind together with what
  it returned or threw.
\<close>

record 'c hector =
  Core_getCurrentDate :: "'c \<Rightarrow> real"
  Core_reset :: "'c \<Rightarrow> real \<Rightarrow> 'c \<times> h_exception option"
  Core_run :: "'c \<Rightarrow> real \<Rightarrow> 'c \<times> h_exception option"
  Core_sendMessage :: "'c \<Rightarrow> string \<Rightarrow> string \<Rightarrow> message_data \<Rightarrow> 'c \<times> (h_exception + unitval)"
  Core_getTrackingData :: "'c \<Rightarrow> h_exception + string"
  Core_getBiomeList :: "'c \<Rightarrow> h_exception + string list"
  Core_createBiome :: "'c \<Rightarrow> string \<Rightarrow> 'c \<times> h_exception option"
  Core_deleteBiome :: "'c \<Rightarrow> string \<Rightarrow> 'c \<times> h_exception option"
  Core_renameBiome :: "'c \<Rightarrow> string \<Rightarrow> string \<Rightarrow> 'c \<times> h_exception option"

text \<open>The constants and the unit functions that \<open>sendmessage\<close> uses; their declarations
  (\<open>message_data.hpp\<close>, \<open>unitval.hpp\<close>, \<open>core.hpp\<close>) are not among the source files.\<close>

record hector_names =
  M_SETDATA :: string
  parseUnitsName :: "string \<Rightarrow> h_exception + unit_types"
  unitsName :: "unit_types \<Rightarrow> string"
  Core_undefinedIndex :: real

text \<open>
  Modelled from the spec: the registry of live instances behind \<open>Core::getcore\<close> and
  \<open>Core::delcore\<close>, a mapping from the instance index to the instance it owns; deleting
  leaves the index invalid (sections 3, 6 and 9).

  The field \<open>calls\<close> is the trace of the calls that the wrappers make into the engine,
  in order; it is what "a message is dispatched" and "a reset is performed" are read from.
\<close>

datatype core_call =
    Call_reset int real
  | Call_run int real
  | Call_sendMessage int string string message_data
  | Call_createBiome int string
  | Call_deleteBiome int string
  | Call_renameBiome int string string
  | Call_delcore int

record 'c world =
  registry :: "int \<Rightarrow> 'c option"
  calls :: "core_call list"

definition getcore :: "'c world \<Rightarrow> int \<Rightarrow> 'c option" where
  "getcore w idx = registry w idx"

definition delcore :: "'c world \<Rightarrow> int \<Rightarrow> 'c world" where
  "delcore w idx = w\<lparr>registry := (registry w)(idx := None), calls := calls w @ [Call_delcore idx]\<rparr>"

text \<open>A method call through the pointer \<open>hcore\<close> changes the instance in place and is
  recorded in the trace.\<close>

definition called :: "'c world \<Rightarrow> int \<Rightarrow> 'c \<Rightarrow> core_call \<Rightarrow> 'c world" where
  "called w idx hcore' c = w\<lparr>registry := (registry w)(idx \<mapsto> hcore'), calls := calls w @ [c]\<rparr>"

text \<open>The handle that R holds, an environment; \<open>core_name\<close> is its entry \<open>name\<close>. The
  parameter \<open>core\<close> of the wrappers is written \<open>env\<close> below.\<close>

record Environment =
  coreidx :: int
  strtdate :: real
  enddate :: real
  trackdate :: real
  inifile :: string
  core_name :: string
  clean :: bool
  reset_date :: real

text \<open>The errors that \<open>Rcpp::stop\<close> raises, by their message; \<open>Uncaught\<close> is an
  \<open>h_exception\<close> that leaves a wrapper without a handler.\<close>

datatype error =
    InvalidCore
  | ValueLength
  | InvalidUnit string string
  | ResetError real h_exception
  | RunDate real real
  | RunError h_exception
  | SendmessageError h_exception
  | Uncaught h_exception

definition gethcore :: "'c world \<Rightarrow> Environment \<Rightarrow> error + 'c" where
  "gethcore w env =
     (case getcore w (coreidx env) of None \<Rightarrow> Inl InvalidCore | Some hcore \<Rightarrow> Inr hcore)"

definition shutdown :: "'c world \<Rightarrow> Environment \<Rightarrow> 'c world \<times> Environment" where
  "shutdown w env = (delcore w (coreidx env), env)"

definition reset ::
  "'c hector \<Rightarrow> 'c world \<Rightarrow> Environment \<Rightarrow> real \<Rightarrow> 'c world \<times> Environment \<times> (error + unit)" where
  "reset api w env d =
     (case gethcore w env of
        Inl e \<Rightarrow> (w, env, Inl e)
      | Inr hcore \<Rightarrow>
          (case Core_reset api hcore d of
             (hcore', Some e) \<Rightarrow>
               (called w (coreidx env) hcore' (Call_reset (coreidx env) d), env,
                Inl (ResetError d e))
           | (hcore', None) \<Rightarrow>
               (called w (coreidx env) hcore' (Call_reset (coreidx env) d),
                (if d \<le> reset_date env then env\<lparr>clean := True\<rparr> else env),
                Inr ())))"

text \<open>The default argument of \<open>reset\<close>: \<open>double date = 0\<close>.\<close>

definition reset_default ::
  "'c hector \<Rightarrow> 'c world \<Rightarrow> Environment \<Rightarrow> 'c world \<times> Environment \<times> (error + unit)" where
  "reset_default api w env = reset api w env 0"

text \<open>After the automatic reset, if there was one, \<open>run\<close> goes on from here.\<close>

definition run_checked ::
  "'c hector \<Rightarrow> 'c world \<Rightarrow> Environment \<Rightarrow> real \<Rightarrow> 'c world \<times> Environment \<times> (error + unit)" where
  "run_checked api w env runtodate =
     (case gethcore w env of
        Inl e \<Rightarrow> (w, env, Inl e)
      | Inr hcore \<Rightarrow>
          if runtodate > 0 \<and> runtodate < Core_getCurrentDate api hcore
          then (w, env, Inl (RunDate runtodate (Core_getCurrentDate api hcore)))
          else
            (case Core_run api hcore runtodate of
               (hcore', Some e) \<Rightarrow>
                 (called w (coreidx env) hcore' (Call_run (coreidx env) runtodate), env,
                  Inl (RunError e))
             | (hcore', None) \<Rightarrow>
                 (called w (coreidx env) hcore' (Call_run (coreidx env) runtodate), env,
                  Inr ())))"

text \<open>The message that announces the automatic reset goes to the console of R and is
  not modelled.\<close>

definition run ::
  "'c hector \<Rightarrow> 'c world \<Rightarrow> Environment \<Rightarrow> real \<Rightarrow> 'c world \<times> Environment \<times> (error + unit)" where
  "run api w env runtodate =
     (if \<not> clean env then
        (case reset api w env (reset_date env) of
           (w', env', Inl e) \<Rightarrow> (w', env', Inl e)
         | (w', env', Inr u) \<Rightarrow> run_checked api w' env' runtodate)
      else run_checked api w env runtodate)"

text \<open>The default argument of \<open>run\<close>: \<open>double runtodate = -1.0\<close>.\<close>

definition run_default ::
  "'c hector \<Rightarrow> 'c world \<Rightarrow> Environment \<Rightarrow> 'c world \<times> Environment \<times> (error + unit)" where
  "run_default api w env = run api w env (- 1)"

definition getdate :: "'c hector \<Rightarrow> 'c world \<Rightarrow> Environment \<Rightarrow> error + real" where
  "getdate api w env =
     (case gethcore w env of
        Inl e \<Rightarrow> Inl e
      | Inr hcore \<Rightarrow> Inr (Core_getCurrentDate api hcore))"

definition get_tracking_data_impl :: "'c hector \<Rightarrow> 'c world \<Rightarrow> Environment \<Rightarrow> error + string" where
  "get_tracking_data_impl api w env =
     (case gethcore w env of
        Inl e \<Rightarrow> Inl e
      | Inr hcore \<Rightarrow>
          (case Core_getTrackingData api hcore of Inl e \<Rightarrow> Inl (Uncaught e) | Inr s \<Rightarrow> Inr s))"

definition get_biome_list :: "'c hector \<Rightarrow> 'c world \<Rightarrow> Environment \<Rightarrow> error + string list" where
  "get_biome_list api w env =
     (case gethcore w env of
        Inl e \<Rightarrow> Inl e
      | Inr hcore \<Rightarrow>
          (case Core_getBiomeList api hcore of
             Inl e \<Rightarrow> Inl (Uncaught e)
           | Inr biome_list \<Rightarrow> Inr biome_list))"

text \<open>The three wrappers that change the biomes have one shape: the method is called
  and what it throws is not caught.\<close>

definition biome_call ::
  "('c \<Rightarrow> 'c \<times> h_exception option) \<Rightarrow> core_call \<Rightarrow> 'c world \<Rightarrow> Environment
     \<Rightarrow> 'c world \<times> Environment \<times> (error + unit)" where
  "biome_call method c w env =
     (case gethcore w env of
        Inl e \<Rightarrow> (w, env, Inl e)
      | Inr hcore \<Rightarrow>
          (case method hcore of
             (hcore', Some e) \<Rightarrow> (called w (coreidx env) hcore' c, env, Inl (Uncaught e))
           | (hcore', None) \<Rightarrow> (called w (coreidx env) hcore' c, env, Inr ())))"

definition create_biome_impl ::
  "'c hector \<Rightarrow> 'c world \<Rightarrow> Environment \<Rightarrow> string \<Rightarrow> 'c world \<times> Environment \<times> (error + unit)" where
  "create_biome_impl api w env biome =
     biome_call (\<lambda>hcore. Core_createBiome api hcore biome)
       (Call_createBiome (coreidx env) biome) w env"

definition delete_biome_impl ::
  "'c hector \<Rightarrow> 'c world \<Rightarrow> Environment \<Rightarrow> string \<Rightarrow> 'c world \<times> Environment \<times> (error + unit)" where
  "delete_biome_impl api w env biome =
     biome_call (\<lambda>hcore. Core_deleteBiome api hcore biome)
       (Call_deleteBiome (coreidx env) biome) w env"

definition rename_biome ::
  "'c hector \<Rightarrow> 'c world \<Rightarrow> Environment \<Rightarrow> string \<Rightarrow> string
     \<Rightarrow> 'c world \<times> Environment \<times> (error + unit)" where
  "rename_biome api w env oldname newname =
     biome_call (\<lambda>hcore. Core_renameBiome api hcore oldname newname)
       (Call_renameBiome (coreidx env) oldname newname) w env"

definition chk_core_valid :: "'c world \<Rightarrow> Environment \<Rightarrow> bool" where
  "chk_core_valid w env = (getcore w (coreidx env) \<noteq> None)"

subsection \<open>\<open>sendmessage\<close>\<close>

text \<open>A \<open>NumericVector\<close> is a list whose entries may be \<open>NA\<close>, here \<open>None\<close>.\<close>

type_synonym NumericVector = "real option list"

record DataFrame =
  df_year :: NumericVector
  df_variable :: string
  df_value :: "real list"
  df_units :: "string list"

text \<open>The message that the body of the loop constructs at index \<open>i\<close>. After the check
  of the lengths \<open>ival\<close> is within \<open>vals\<close> whenever \<open>i\<close> is within \<open>dates\<close>.\<close>

definition message_at ::
  "hector_names \<Rightarrow> NumericVector \<Rightarrow> NumericVector \<Rightarrow> unit_types \<Rightarrow> nat \<Rightarrow> message_data" where
  "message_at names dates vals utype i =
     (let ival = (if length vals = 1 then 0 else i);
          tempval = (case vals ! ival of None \<Rightarrow> 0 | Some x \<Rightarrow> x);
          tempdate = (case dates ! i of None \<Rightarrow> Core_undefinedIndex names | Some d \<Rightarrow> d)
      in \<lparr>msg_date = tempdate, msg_value = \<lparr>valUnits = tempval, unitsUnits = utype\<rparr>\<rparr>)"

function sendmessage_loop ::
  "'c hector \<Rightarrow> hector_names \<Rightarrow> int \<Rightarrow> string \<Rightarrow> string \<Rightarrow> NumericVector \<Rightarrow> NumericVector
     \<Rightarrow> unit_types \<Rightarrow> nat \<Rightarrow> 'c world \<Rightarrow> 'c \<Rightarrow> real list \<Rightarrow> string list
     \<Rightarrow> 'c world \<times> (h_exception + real list \<times> string list)" where
  "sendmessage_loop api names idx msgstr capstr dates vals utype i w hcore valueout unitsout =
     (if i < length dates then
        (case Core_sendMessage api hcore msgstr capstr (message_at names dates vals utype i) of
           (hcore', Inl e) \<Rightarrow>
             (called w idx hcore'
                (Call_sendMessage idx msgstr capstr (message_at names dates vals utype i)),
              Inl e)
         | (hcore', Inr rtn) \<Rightarrow>
             sendmessage_loop api names idx msgstr capstr dates vals utype (Suc i)
               (called w idx hcore'
                  (Call_sendMessage idx msgstr capstr (message_at names dates vals utype i)))
               hcore'
               (valueout[i := valUnits rtn])
               (unitsout[i := unitsName names (unitsUnits rtn)]))
      else (w, Inr (valueout, unitsout)))"
  by pat_completeness auto
termination
  by (relation "measure (\<lambda>(api, names, idx, msgstr, capstr, dates, vals, utype, i, rest).
                           length dates - i)") auto

declare sendmessage_loop.simps [simp del]

text \<open>The conversion of the unit string: a failure is an error for \<open>M_SETDATA\<close> only.\<close>

definition unit_of_string ::
  "hector_names \<Rightarrow> string \<Rightarrow> string \<Rightarrow> string \<Rightarrow> error + unit_types" where
  "unit_of_string names msgstr capstr unitstr =
     (case parseUnitsName names unitstr of
        Inr utype \<Rightarrow> Inr utype
      | Inl e \<Rightarrow>
          if msgstr = M_SETDATA names then Inl (InvalidUnit unitstr capstr)
          else Inr U_UNDEFINED)"

definition sendmessage ::
  "'c hector \<Rightarrow> hector_names \<Rightarrow> 'c world \<Rightarrow> Environment \<Rightarrow> string \<Rightarrow> string
     \<Rightarrow> NumericVector \<Rightarrow> NumericVector \<Rightarrow> string \<Rightarrow> 'c world \<times> (error + DataFrame)" where
  "sendmessage api names w env msgtype capability dates vals unit =
     (case gethcore w env of
        Inl e \<Rightarrow> (w, Inl e)
      | Inr hcore \<Rightarrow>
          if length vals \<noteq> length dates \<and> length vals \<noteq> 1 then (w, Inl ValueLength)
          else
            (case unit_of_string names msgtype capability unit of
               Inl e \<Rightarrow> (w, Inl e)
             | Inr utype \<Rightarrow>
                 (case sendmessage_loop api names (coreidx env) msgtype capability dates vals
                         utype 0 w hcore
                         (replicate (length dates) 0) (replicate (length dates) []) of
                    (w', Inl e) \<Rightarrow> (w', Inl (SendmessageError e))
                  | (w', Inr (valueout, unitsout)) \<Rightarrow>
                      (w', Inr \<lparr>df_year = dates, df_variable = capability,
                                df_value = valueout, df_units = unitsout\<rparr>))))"

subsection \<open>The operations on a handle, as data\<close>

datatype call =
    Run real
  | Reset real
  | Getdate
  | Sendmessage string string NumericVector NumericVector string
  | Get_tracking_data
  | Get_biome_list
  | Create_biome string
  | Delete_biome string
  | Rename_biome string string

datatype reply = Done | Date real | Text string | Names "string list" | Frame DataFrame

fun exec ::
  "'c hector \<Rightarrow> hector_names \<Rightarrow> 'c world \<Rightarrow> Environment \<Rightarrow> call
     \<Rightarrow> 'c world \<times> Environment \<times> (error + reply)" where
  "exec api names w env (Run runtodate) =
     (case run api w env runtodate of (w', env', r) \<Rightarrow> (w', env', map_sum id (\<lambda>u. Done) r))"
| "exec api names w env (Reset d) =
     (case reset api w env d of (w', env', r) \<Rightarrow> (w', env', map_sum id (\<lambda>u. Done) r))"
| "exec api names w env Getdate = (w, env, map_sum id Date (getdate api w env))"
| "exec api names w env (Sendmessage msgtype capability dates vals unit) =
     (case sendmessage api names w env msgtype capability dates vals unit of
        (w', r) \<Rightarrow> (w', env, map_sum id Frame r))"
| "exec api names w env Get_tracking_data =
     (w, env, map_sum id Text (get_tracking_data_impl api w env))"
| "exec api names w env Get_biome_list = (w, env, map_sum id Names (get_biome_list api w env))"
| "exec api names w env (Create_biome biome) =
     (case create_biome_impl api w env biome of
        (w', env', r) \<Rightarrow> (w', env', map_sum id (\<lambda>u. Done) r))"
| "exec api names w env (Delete_biome biome) =
     (case delete_biome_impl api w env biome of
        (w', env', r) \<Rightarrow> (w', env', map_sum id (\<lambda>u. Done) r))"
| "exec api names w env (Rename_biome oldname newname) =
     (case rename_biome api w env oldname newname of
        (w', env', r) \<Rightarrow> (w', env', map_sum id (\<lambda>u. Done) r))"

text \<open>A sequence of operations on one handle; every operation is attempted, as a caller
  that catches the errors of R would, and the results are listed in order.\<close>

fun exec_all ::
  "'c hector \<Rightarrow> hector_names \<Rightarrow> 'c world \<Rightarrow> Environment \<Rightarrow> call list
     \<Rightarrow> 'c world \<times> Environment \<times> (error + reply) list" where
  "exec_all api names w env [] = (w, env, [])"
| "exec_all api names w env (c # cs) =
     (case exec api names w env c of
        (w', env', r) \<Rightarrow>
          (case exec_all api names w' env' cs of
             (w'', env'', rs) \<Rightarrow> (w'', env'', r # rs)))"

section \<open>The engine, from the specification\<close>

text \<open>
  Modelled from the spec: class \<open>Core\<close> (\<open>core.hpp\<close>) is not among the source files; only
  its callers are. The model follows the specification's sections 3, 4.3 and 4.4 and the
  documentation of \<open>reset\<close> in \<open>rcpp_hector.cpp\<close>. The equations of the components are
  out of the specification's scope: the record \<open>science\<close> holds them as parameters, over a
  state \<open>'st\<close> of all components.
\<close>

record 'st science =
  comp_spinup :: "'st \<Rightarrow> 'st option"
  comp_step :: "real \<Rightarrow> 'st \<Rightarrow> 'st"
  comp_message :: "'st \<Rightarrow> string \<Rightarrow> string \<Rightarrow> message_data \<Rightarrow> 'st \<times> (h_exception + unitval)"
  comp_trackingData :: "'st \<Rightarrow> string"
  comp_biomeList :: "'st \<Rightarrow> string list"
  comp_createBiome :: "'st \<Rightarrow> string \<Rightarrow> 'st \<times> h_exception option"
  comp_deleteBiome :: "'st \<Rightarrow> string \<Rightarrow> 'st \<times> h_exception option"
  comp_renameBiome :: "'st \<Rightarrow> string \<Rightarrow> string \<Rightarrow> 'st \<times> h_exception option"

text \<open>
  \<open>initial\<close> is the configured state before any spin-up, \<open>snapshot\<close> the state that the
  last spin-up left (none before the first), \<open>checkpoints\<close> the states retained at the
  dates landed on since, newest first, and \<open>spinups\<close> counts the executions of the
  spin-up.
\<close>

record 'st Core =
  startDate :: real
  endDate :: real
  currDate :: real
  components :: 'st
  initial :: 'st
  snapshot :: "'st option"
  checkpoints :: "(real \<times> 'st) list"
  spinups :: nat

text \<open>Modelled from the spec: the spin-up phase iterates the model from its initial
  conditions; it fails with SpinupDivergence (\<open>None\<close> here) or leaves the state that
  the run starts from. The clock does not advance during the spin-up.\<close>

definition spec_spinup :: "'st science \<Rightarrow> 'st Core \<Rightarrow> 'st Core option" where
  "spec_spinup ph c =
     (case comp_spinup ph (initial c) of
        None \<Rightarrow> None
      | Some s \<Rightarrow>
          Some (c\<lparr>components := s, snapshot := Some s, checkpoints := [],
                  spinups := spinups c + 1\<rparr>))"

text \<open>Modelled from the spec: past spin-up the clock advances in fixed increments, of one
  year here; at each landed date the components step and their state is retained.\<close>

primrec spec_advance :: "'st science \<Rightarrow> nat \<Rightarrow> 'st Core \<Rightarrow> 'st Core" where
  "spec_advance ph 0 c = c"
| "spec_advance ph (Suc n) c =
     spec_advance ph n
       (c\<lparr>currDate := currDate c + 1,
          components := comp_step ph (currDate c + 1) (components c),
          checkpoints :=
            (currDate c + 1, comp_step ph (currDate c + 1) (components c)) # checkpoints c\<rparr>)"

text \<open>Modelled from the spec: \<open>run(toDate)\<close> advances to \<open>toDate\<close>, or to the configured
  end date if the date is a non-positive sentinel; the first call runs the spin-up
  before the clock advances. The clock only advances: the number of steps is the number
  of years up to the target, none if the target is not ahead.\<close>

definition spec_run :: "'st science \<Rightarrow> 'st Core \<Rightarrow> real \<Rightarrow> 'st Core \<times> h_exception option" where
  "spec_run ph c toDate =
     (let target = (if toDate \<le> 0 then endDate c else toDate)
      in case (if snapshot c = None then spec_spinup ph c else Some c) of
           None \<Rightarrow> (c, Some SpinupDivergence)
         | Some c' \<Rightarrow> (spec_advance ph (nat \<lceil>target - currDate c'\<rceil>) c', None))"

text \<open>Modelled from the spec: \<open>reset(date)\<close>. Before the start date the spin-up is rerun
  and the model is left ready to run at the start date; exactly at the start date the
  spin-up is not rerun and the state is the snapshot that the spin-up left; at a later
  date the state is the nearest checkpoint at or before it. Where no state is retained
  the reset fails with UnsupportedReset. (\<open>main-api.cpp\<close> calls \<open>reset(0)\<close> "to reset
  to start and rerun spinup".)\<close>

definition spec_reset :: "'st science \<Rightarrow> 'st Core \<Rightarrow> real \<Rightarrow> 'st Core \<times> h_exception option" where
  "spec_reset ph c d =
     (if d < startDate c then
        (case spec_spinup ph c of
           None \<Rightarrow> (c, Some SpinupDivergence)
         | Some c' \<Rightarrow> (c'\<lparr>currDate := startDate c\<rparr>, None))
      else
        (case snapshot c of
           None \<Rightarrow> (c, Some UnsupportedReset)
         | Some s0 \<Rightarrow>
             if d = startDate c
             then (c\<lparr>currDate := startDate c, components := s0, checkpoints := []\<rparr>, None)
             else
               (case dropWhile (\<lambda>ts. d < fst ts) (checkpoints c) of
                  [] \<Rightarrow> (c\<lparr>currDate := startDate c, components := s0, checkpoints := []\<rparr>, None)
                | (t, s) # older \<Rightarrow>
                    (c\<lparr>currDate := t, components := s, checkpoints := (t, s) # older\<rparr>, None))))"

text \<open>Modelled from the spec: messages and the operations on biomes go to the
  components; the core routes them and keeps its clock.\<close>

definition spec_to_components ::
  "('st \<Rightarrow> 'st \<times> 'r) \<Rightarrow> 'st Core \<Rightarrow> 'st Core \<times> 'r" where
  "spec_to_components f c = (case f (components c) of (s, r) \<Rightarrow> (c\<lparr>components := s\<rparr>, r))"

definition spec_api :: "'st science \<Rightarrow> 'st Core hector" where
  "spec_api ph =
     \<lparr>Core_getCurrentDate = currDate,
      Core_reset = spec_reset ph,
      Core_run = spec_run ph,
      Core_sendMessage =
        (\<lambda>c msgstr capstr info.
           spec_to_components (\<lambda>s. comp_message ph s msgstr capstr info) c),
      Core_getTrackingData = (\<lambda>c. Inr (comp_trackingData ph (components c))),
      Core_getBiomeList = (\<lambda>c. Inr (comp_biomeList ph (components c))),
      Core_createBiome = (\<lambda>c biome. spec_to_components (\<lambda>s. comp_createBiome ph s biome) c),
      Core_deleteBiome = (\<lambda>c biome. spec_to_components (\<lambda>s. comp_deleteBiome ph s biome) c),
      Core_renameBiome =
        (\<lambda>c oldname newname.
           spec_to_components (\<lambda>s. comp_renameBiome ph s oldname newname) c)\<rparr>"

section \<open>Terms of the statements\<close>

text \<open>The calls into the engine that were made between two states of the world.\<close>

definition new_calls :: "'c world \<Rightarrow> 'c world \<Rightarrow> core_call list" where
  "new_calls w w' = drop (length (calls w)) (calls w')"

text \<open>The record of the tracking report as the specification lays it out: date, pool
  name, value, unit, and one pair of source name and fraction for each source.\<close>

definition tracking_record :: "cell \<Rightarrow> fluxpool \<Rightarrow> cell list" where
  "tracking_record d x =
     [d, Str (name x), Num (magnitude x), UnitTag (units x)]
     @ concat (map (\<lambda>s. [Str s, Num (get_fraction x s)]) (get_sources x))"

text \<open>The operations that may take the clock back: a reset, and a run on a handle
  that is not clean, which resets first.\<close>

fun may_rewind :: "Environment \<Rightarrow> call \<Rightarrow> bool" where
  "may_rewind env (Reset d) = True"
| "may_rewind env (Run runtodate) = (\<not> clean env)"
| "may_rewind env c = False"

text \<open>The messages of a call, one for each date entry, in the order of the dates.\<close>

definition messages_of ::
  "hector_names \<Rightarrow> NumericVector \<Rightarrow> NumericVector \<Rightarrow> unit_types \<Rightarrow> message_data list" where
  "messages_of names dates vals utype = map (message_at names dates vals utype) [0..<length dates]"

text \<open>
  The dispatch of a list of messages as the statements describe it: the messages go to
  the engine one after the other, each to the state that the one before left, and the
  dispatch ends with the first message that the engine rejects. The result is the state
  of the engine, the messages that were dispatched, and the replies or the exception.
\<close>

fun deliver ::
  "'c hector \<Rightarrow> 'c \<Rightarrow> string \<Rightarrow> string \<Rightarrow> message_data list
     \<Rightarrow> 'c \<times> message_data list \<times> (h_exception + unitval list)" where
  "deliver api hcore msgstr capstr [] = (hcore, [], Inr [])"
| "deliver api hcore msgstr capstr (info # rest) =
     (case Core_sendMessage api hcore msgstr capstr info of
        (hcore', Inl e) \<Rightarrow> (hcore', [info], Inl e)
      | (hcore', Inr rtn) \<Rightarrow>
          (case deliver api hcore' msgstr capstr rest of
             (hcore'', sent, Inl e) \<Rightarrow> (hcore'', info # sent, Inl e)
           | (hcore'', sent, Inr rtns) \<Rightarrow> (hcore'', info # sent, Inr (rtn # rtns))))"

text \<open>The world after the calls \<open>cs\<close> into the engine that left the instance \<open>idx\<close> in
  the state \<open>hcore'\<close>.\<close>

definition after_calls :: "'c world \<Rightarrow> int \<Rightarrow> 'c \<Rightarrow> core_call list \<Rightarrow> 'c world" where
  "after_calls w idx hcore' cs =
     w\<lparr>registry := (registry w)(idx \<mapsto> hcore'), calls := calls w @ cs\<rparr>"

text \<open>What \<open>sendmessage\<close> leaves and returns when the dispatch of its messages leaves
  and returns \<open>(hcore', sent, r)\<close>.\<close>

definition dispatched ::
  "hector_names \<Rightarrow> 'c world \<Rightarrow> int \<Rightarrow> string \<Rightarrow> string \<Rightarrow> NumericVector
     \<Rightarrow> 'c \<times> message_data list \<times> (h_exception + unitval list)
     \<Rightarrow> 'c world \<times> (error + DataFrame)" where
  "dispatched names w idx msgstr capstr dates d =
     (case d of
        (hcore', sent, r) \<Rightarrow>
          (after_calls w idx hcore' (map (Call_sendMessage idx msgstr capstr) sent),
           case r of
             Inl e \<Rightarrow> Inl (SendmessageError e)
           | Inr rtns \<Rightarrow>
               Inr \<lparr>df_year = dates, df_variable = capstr,
                     df_value = map valUnits rtns,
                     df_units = map (\<lambda>rtn. unitsName names (unitsUnits rtn)) rtns\<rparr>))"

text \<open>A small engine for the examples: the state of the components counts their steps;
  a message is answered with that count, and the capability \<open>nothing\<close> is unknown.\<close>

definition demo_science :: "nat science" where
  "demo_science =
     \<lparr>comp_spinup = (\<lambda>s. Some s),
      comp_step = (\<lambda>d s. Suc s),
      comp_message =
        (\<lambda>s msgstr capstr info.
           if capstr = ''nothing'' then (s, Inl UnknownCapability)
           else (s, Inr \<lparr>valUnits = real s, unitsUnits = unitsUnits (msg_value info)\<rparr>)),
      comp_trackingData = (\<lambda>s. []),
      comp_biomeList = (\<lambda>s. [''global'']),
      comp_createBiome = (\<lambda>s biome. (s, None)),
      comp_deleteBiome = (\<lambda>s biome. (s, None)),
      comp_renameBiome = (\<lambda>s oldname newname. (s, None))\<rparr>"

definition demo_names :: hector_names where
  "demo_names =
     \<lparr>M_SETDATA = ''SETDATA'',
      parseUnitsName = (\<lambda>s. if s = ''PgC'' then Inr U_PGC else Inl UnknownUnit),
      unitsName = (\<lambda>u. if u = U_PGC then ''PgC'' else ''(undefined)''),
      Core_undefinedIndex = - 1\<rparr>"

text \<open>An instance as configured, and the same instance after \<open>run\<close> to 1752.\<close>

definition demo_fresh :: "nat Core" where
  "demo_fresh =
     \<lparr>startDate = 1750, endDate = 1760, currDate = 1750, components = 0, initial = 0,
      snapshot = None, checkpoints = [], spinups = 0\<rparr>"

definition demo_core :: "nat Core" where
  "demo_core =
     \<lparr>startDate = 1750, endDate = 1760, currDate = 1752, components = 2, initial = 0,
      snapshot = Some 0, checkpoints = [(1752, 2), (1751, 1)], spinups = 1\<rparr>"

definition demo_world :: "nat Core world" where
  "demo_world = \<lparr>registry = (\<lambda>i. None)(1 \<mapsto> demo_core), calls = []\<rparr>"

text \<open>The handle as \<open>newcore_impl\<close> returns it: clean, with reset date 0.\<close>

definition demo_env :: Environment where
  "demo_env =
     \<lparr>coreidx = 1, strtdate = 1750, enddate = 1760, trackdate = 1750, inifile = ''hector.ini'',
      core_name = ''demo'', clean = True, reset_date = 0\<rparr>"

section \<open>Properties of the tracked pool\<close>


















section \<open>Properties of the visitor\<close>

lemma notify_visitor_visited:
  "snd (notify_visitor g c v steps) = map snd (filter (\<lambda>step. \<not> fst step) steps)"
proof (induction steps arbitrary: v)
  case Nil
  show ?case by simp
next
  case (Cons step steps)
  obtain in_spinup d where step: "step = (in_spinup, d)"
    by (cases step)
  show ?case
  proof (cases in_spinup)
    case True
    with step Cons.IH [of "v\<lparr>datestring := Num d\<rparr>"] show ?thesis
      by (simp add: shouldVisit_def)
  next
    case False
    have "snd (notify_visitor g c (visit_Core g (v\<lparr>datestring := Num d\<rparr>) c) steps)
          = map snd (filter (\<lambda>step. \<not> fst step) steps)"
      by (rule Cons.IH)
    with step False show ?thesis
      by (simp add: shouldVisit_def split: prod.splits) (metis snd_conv)
  qed
qed

text \<open>
  Claim C3. For every date, \<open>shouldVisit\<close> returns false when \<open>in_spinup\<close> is true and
  true when it is false; so over any sequence of steps the visitor is visited exactly at
  the dates of the steps that are not spin-up steps, once for each and in their order,
  and never at a spin-up step.
\<close>

theorem C3_shouldVisit_not_in_spinup:
  "snd (shouldVisit v in_spinup d) = (\<not> in_spinup)
   \<and> snd (notify_visitor g c v steps) = map snd (filter (\<lambda>step. \<not> fst step) steps)
   \<and> length (snd (notify_visitor g c v steps)) = length (filter (\<lambda>step. \<not> fst step) steps)"
  by (simp add: notify_visitor_visited) (simp add: shouldVisit_def)

lemma source_cells_concat:
  "source_cells x ss = concat (map (\<lambda>s. [Str s, Num (get_fraction x s)]) ss)"
  by (induction ss) simp_all

lemma print_pool_PGC:
  "units x = U_PGC \<Longrightarrow>
   print_pool v x =
     Inr (v\<lparr>csvFile := csvFile v @ (if tracking x then [tracking_record (datestring v) x] else [])\<rparr>)"
  by (simp add: print_pool_def value_in_def tracking_record_def source_cells_concat)

text \<open>
  Claim C2, as amended. At a visited date \<open>d\<close>, for the two pools of the component, both
  held in PgC: when output is enabled for the component, the visitor appends exactly one
  record for each pool that has tracking enabled and none for a pool that has not, the
  record holding the date, the pool's name, its value, its unit and one pair of source
  name and fraction for each source; when output is not enabled for the component, it
  appends no record, also for a pool that has tracking enabled.
\<close>

theorem C2_one_record_per_tracked_pool:
  assumes "units (atmos_c c) = U_PGC" and "units (earth_c c) = U_PGC"
  shows "visit_SimpleNbox outputEnabled (visit_Core g (fst (shouldVisit v in_spinup d)) k) c =
           Inr ((visit_Core g (fst (shouldVisit v in_spinup d)) k)
                  \<lparr>csvFile := csvFile v @
                     (if outputEnabled k (componentName c)
                      then map (tracking_record (Num d)) (filter tracking [atmos_c c, earth_c c])
                      else [])\<rparr>)
         \<and> length (tracking_record (Num d) x) = 4 + 2 * length (get_sources x)"
proof -
  let ?v = "visit_Core g (fst (shouldVisit v in_spinup d)) k"
  have v: "core ?v = Some k" "datestring ?v = Num d" "csvFile ?v = csvFile v"
    by (simp_all add: visit_Core_def shouldVisit_def)
  have len: "length (concat (map (\<lambda>s. [Str s, Num (get_fraction x s)]) ss)) = 2 * length ss" for ss
    by (induction ss) simp_all
  show ?thesis
  proof (cases "outputEnabled k (componentName c)")
    case False
    with v show ?thesis
      by (simp add: visit_SimpleNbox_def tracking_record_def len)
  next
    case True
    with v assms show ?thesis
      by (simp add: visit_SimpleNbox_def print_pool_PGC tracking_record_def len)
  qed
qed

text \<open>Output enabled, the atmosphere tracked and the land not: one record, for the
  atmosphere.\<close>

theorem C2_one_record_per_tracked_pool_witness:
  "units (new_fluxpool 588 U_PGC True ''atmos_c'') = U_PGC
   \<and> units (new_fluxpool 2000 U_PGC False ''earth_c'') = U_PGC
   \<and> visit_SimpleNbox (\<lambda>k n. True)
       (visit_Core (\<lambda>k. ''run'') (fst (shouldVisit (CSVFluxPoolVisitor_new [] False) False 1750)) ())
       \<lparr>componentName = ''simpleNbox'',
        atmos_c = new_fluxpool 588 U_PGC True ''atmos_c'',
        earth_c = new_fluxpool 2000 U_PGC False ''earth_c''\<rparr>
     = Inr \<lparr>csvFile = [[Num 1750, Str ''atmos_c'', Num 588, UnitTag U_PGC, Str ''atmos_c'', Num 1]],
            datestring = Num 1750, run_name = ''run'', core = Some ()\<rparr>"
proof -
  let ?c = "\<lparr>componentName = ''simpleNbox'',
             atmos_c = new_fluxpool 588 U_PGC True ''atmos_c'',
             earth_c = new_fluxpool 2000 U_PGC False ''earth_c''\<rparr>"
  have h1: "units (atmos_c ?c) = U_PGC" and h2: "units (earth_c ?c) = U_PGC"
    by (simp_all add: new_fluxpool_def)
  from C2_one_record_per_tracked_pool [OF h1 h2, of "\<lambda>k n. True" "\<lambda>k. ''run''"
      "CSVFluxPoolVisitor_new [] False" False 1750 "()"]
  show ?thesis
    by (simp add: new_fluxpool_def CSVFluxPoolVisitor_new_def visit_Core_def shouldVisit_def
        tracking_record_def get_sources_def get_fraction_def fraction_of_def)
qed

text \<open>Output not enabled for the component: both pools have tracking enabled, the date
  is visited, and the stream holds the header line alone.\<close>

theorem C2_counterexample:
  "tracking (new_fluxpool 588 U_PGC True ''atmos_c'')
   \<and> tracking (new_fluxpool 2000 U_PGC True ''earth_c'')
   \<and> snd (shouldVisit (CSVFluxPoolVisitor_new [] True) False 1750)
   \<and> visit_SimpleNbox (\<lambda>k n. False)
       (visit_Core (\<lambda>k. ''run'') (fst (shouldVisit (CSVFluxPoolVisitor_new [] True) False 1750)) ())
       \<lparr>componentName = ''simpleNbox'',
        atmos_c = new_fluxpool 588 U_PGC True ''atmos_c'',
        earth_c = new_fluxpool 2000 U_PGC True ''earth_c''\<rparr>
     = Inr \<lparr>csvFile = [[Str ''year'', Str ''pool_name'', Str ''pool_value'', Str ''pool_units'',
                        Str ''source_name'', Str ''source_fraction'']],
            datestring = Num 1750, run_name = ''run'', core = Some ()\<rparr>"
  by (simp add: new_fluxpool_def CSVFluxPoolVisitor_new_def visit_Core_def shouldVisit_def
      visit_SimpleNbox_def)

section \<open>Properties of the R interface\<close>

lemma new_calls_called [simp]: "new_calls w (called w idx h c) = [c]"
  by (simp add: new_calls_def called_def)

lemma new_calls_same [simp]: "new_calls w w = []"
  by (simp add: new_calls_def)

subsection \<open>Operations on an instance that was shut down\<close>

lemma gethcore_dead: "getcore w (coreidx env) = None \<Longrightarrow> gethcore w env = Inl InvalidCore"
  by (simp add: gethcore_def)

lemma exec_dead:
  "getcore w (coreidx env) = None \<Longrightarrow> exec api names w env c = (w, env, Inl InvalidCore)"
  by (cases c)
     (simp_all add: gethcore_dead run_def run_checked_def reset_def getdate_def sendmessage_def
        get_tracking_data_impl_def get_biome_list_def create_biome_impl_def delete_biome_impl_def
        rename_biome_def biome_call_def)

lemma exec_all_dead:
  "getcore w (coreidx env) = None \<Longrightarrow>
   exec_all api names w env cs = (w, env, replicate (length cs) (Inl InvalidCore))"
  by (induction cs) (simp_all add: exec_dead)

text \<open>
  Claim C6. After \<open>shutdown\<close> of an instance, every operation in any sequence of
  operations (run, reset, getdate, sendmessage, the tracking data, the biome list, and
  creating, deleting and renaming a biome) on a handle of that instance fails with the
  invalid-instance error, and leaves the registry, the trace of calls into the engine and
  the handle as they were; \<open>chk_core_valid\<close> answers false.
\<close>

theorem C6_after_shutdown:
  assumes "coreidx env' = coreidx env"
  shows "exec_all api names (fst (shutdown w env)) env' cs =
           (fst (shutdown w env), env', replicate (length cs) (Inl InvalidCore))
         \<and> \<not> chk_core_valid (fst (shutdown w env)) env'"
proof -
  have dead: "getcore (fst (shutdown w env)) (coreidx env') = None"
    using assms by (simp add: shutdown_def delcore_def getcore_def)
  then show ?thesis
    by (simp add: exec_all_dead chk_core_valid_def)
qed

theorem C6_after_shutdown_witness:
  "coreidx (demo_env\<lparr>clean := False\<rparr>) = coreidx demo_env
   \<and> chk_core_valid demo_world demo_env
   \<and> exec_all (spec_api demo_science) demo_names (fst (shutdown demo_world demo_env))
       (demo_env\<lparr>clean := False\<rparr>)
       [Run 1755, Reset 0, Getdate, Sendmessage ''GETDATA'' ''temp'' [None] [None] ''PgC'',
        Get_tracking_data, Get_biome_list, Create_biome ''boreal'', Delete_biome ''boreal'',
        Rename_biome ''global'' ''boreal'']
     = (fst (shutdown demo_world demo_env), demo_env\<lparr>clean := False\<rparr>,
        [Inl InvalidCore, Inl InvalidCore, Inl InvalidCore, Inl InvalidCore, Inl InvalidCore,
         Inl InvalidCore, Inl InvalidCore, Inl InvalidCore, Inl InvalidCore])"
proof -
  have h: "coreidx (demo_env\<lparr>clean := False\<rparr>) = coreidx demo_env"
    by simp
  have v: "chk_core_valid demo_world demo_env"
    by (simp add: chk_core_valid_def getcore_def demo_world_def demo_env_def)
  from C6_after_shutdown [OF h, of "spec_api demo_science" demo_names demo_world
      "[Run 1755, Reset 0, Getdate, Sendmessage ''GETDATA'' ''temp'' [None] [None] ''PgC'',
        Get_tracking_data, Get_biome_list, Create_biome ''boreal'', Delete_biome ''boreal'',
        Rename_biome ''global'' ''boreal'']"] h v
  show ?thesis
    by (simp add: numeral_eq_Suc)
qed

subsection \<open>The automatic reset of \<open>run\<close>\<close>

lemma run_checked_calls:
  assumes "getcore w (coreidx env) = Some hcore"
  shows "(new_calls w (fst (run_checked api w env t)) = []
          \<or> new_calls w (fst (run_checked api w env t)) = [Call_run (coreidx env) t])
         \<and> fst (snd (run_checked api w env t)) = env"
  using assms
  by (simp add: run_checked_def gethcore_def split: prod.splits option.splits)

lemma run_checked_calls_after:
  assumes "getcore w' (coreidx env) = Some hcore" and "calls w' = calls w @ [c]"
  shows "(new_calls w (fst (run_checked api w' env t)) = [c]
          \<or> new_calls w (fst (run_checked api w' env t)) = [c, Call_run (coreidx env) t])
         \<and> fst (snd (run_checked api w' env t)) = env"
  using assms
  by (simp add: run_checked_def gethcore_def new_calls_def called_def
      split: prod.splits option.splits)

text \<open>
  Claim C8. On a live instance, a \<open>run\<close> on a handle that is not clean calls the reset
  of the engine with the recorded reset date first: it is the first call into the engine,
  and the call that advances the clock, if there is one, comes after it and only when
  the reset did not fail. When the reset does not fail the handle is clean afterwards,
  and the run is the run on that clean handle in the state that the reset left. A \<open>run\<close>
  on a clean handle makes no reset call and leaves the handle as it was.
\<close>

theorem C8_run_resets_dirty_handle:
  assumes live: "getcore w (coreidx env) = Some hcore"
  shows "(\<not> clean env \<longrightarrow>
            (new_calls w (fst (run api w env t)) = [Call_reset (coreidx env) (reset_date env)]
             \<or> new_calls w (fst (run api w env t))
                 = [Call_reset (coreidx env) (reset_date env), Call_run (coreidx env) t])
            \<and> (snd (Core_reset api hcore (reset_date env)) = None \<longrightarrow>
                 clean (fst (snd (run api w env t)))
                 \<and> clean (fst (snd (reset api w env (reset_date env))))
                 \<and> run api w env t
                     = run api (fst (reset api w env (reset_date env)))
                         (fst (snd (reset api w env (reset_date env)))) t)
            \<and> (Call_run (coreidx env) t \<in> set (new_calls w (fst (run api w env t))) \<longrightarrow>
                 snd (Core_reset api hcore (reset_date env)) = None))
         \<and> (clean env \<longrightarrow>
              (new_calls w (fst (run api w env t)) = []
               \<or> new_calls w (fst (run api w env t)) = [Call_run (coreidx env) t])
              \<and> fst (snd (run api w env t)) = env)"
proof (cases "clean env")
  case True
  with run_checked_calls [OF live, of api t] show ?thesis
    by (simp add: run_def)
next
  case False
  obtain hcore' r where cr: "Core_reset api hcore (reset_date env) = (hcore', r)"
    by (cases "Core_reset api hcore (reset_date env)")
  let ?c = "Call_reset (coreidx env) (reset_date env)"
  let ?w' = "called w (coreidx env) hcore' ?c"
  show ?thesis
  proof (cases r)
    case (Some e)
    with False live cr show ?thesis
      by (simp add: run_def reset_def gethcore_def)
  next
    case None
    have live': "getcore ?w' (coreidx (env\<lparr>clean := True\<rparr>)) = Some hcore'"
      by (simp add: getcore_def called_def)
    have c': "calls ?w' = calls w @ [?c]"
      by (simp add: called_def)
    from None False live cr
    have r: "reset api w env (reset_date env) = (?w', env\<lparr>clean := True\<rparr>, Inr ())"
      by (simp add: reset_def gethcore_def)
    with False have run: "run api w env t = run_checked api ?w' (env\<lparr>clean := True\<rparr>) t"
      by (simp add: run_def)
    from run_checked_calls_after [OF live' c', of api t] run r cr None False
    show ?thesis
      by (auto simp: run_def)
  qed
qed

lemmas demo_defs =
  demo_world_def demo_env_def demo_core_def demo_science_def demo_names_def
  spec_api_def spec_reset_def spec_run_def spec_spinup_def spec_to_components_def
  getcore_def gethcore_def called_def new_calls_def

text \<open>The instance is at 1752 and the handle is not clean, with reset date 0: the run
  to 1751 resets first and then advances.\<close>

theorem C8_run_resets_dirty_handle_witness:
  "getcore demo_world (coreidx (demo_env\<lparr>clean := False\<rparr>)) = Some demo_core
   \<and> \<not> clean (demo_env\<lparr>clean := False\<rparr>)
   \<and> new_calls demo_world (fst (run (spec_api demo_science) demo_world (demo_env\<lparr>clean := False\<rparr>) 1751))
       = [Call_reset 1 0, Call_run 1 1751]
   \<and> clean (fst (snd (run (spec_api demo_science) demo_world (demo_env\<lparr>clean := False\<rparr>) 1751)))
   \<and> clean demo_env
   \<and> new_calls demo_world (fst (run (spec_api demo_science) demo_world demo_env 1753))
       = [Call_run 1 1753]"
proof -
  have h: "getcore demo_world (coreidx (demo_env\<lparr>clean := False\<rparr>)) = Some demo_core"
    by (simp add: demo_defs)
  have h': "getcore demo_world (coreidx demo_env) = Some demo_core"
    by (simp add: demo_defs)
  have r: "snd (Core_reset (spec_api demo_science) demo_core (reset_date (demo_env\<lparr>clean := False\<rparr>)))
             = None"
    by (simp add: demo_defs)
  have a: "new_calls demo_world
             (fst (run (spec_api demo_science) demo_world (demo_env\<lparr>clean := False\<rparr>) 1751))
           = [Call_reset 1 0, Call_run 1 1751]"
    by (simp add: demo_defs run_def reset_def run_checked_def)
  have b: "new_calls demo_world (fst (run (spec_api demo_science) demo_world demo_env 1753))
           = [Call_run 1 1753]"
    by (simp add: demo_defs run_def run_checked_def)
  have nc: "\<not> clean (demo_env\<lparr>clean := False\<rparr>)" and cl: "clean demo_env"
    by (simp_all add: demo_env_def)
  from C8_run_resets_dirty_handle [OF h, of "spec_api demo_science" 1751] nc r
  have c: "clean (fst (snd (run (spec_api demo_science) demo_world (demo_env\<lparr>clean := False\<rparr>) 1751)))"
    by blast
  from h nc a c cl b show ?thesis
    by blast
qed

subsection \<open>The messages that \<open>sendmessage\<close> dispatches\<close>

text \<open>Past the check of the lengths the loop reads inside the value vector.\<close>

lemma ival_in_range:
  "length vals = length dates \<or> length vals = 1 \<Longrightarrow> i < length dates \<Longrightarrow>
   (if length vals = 1 then 0 else i) < length vals"
  by auto

lemma message_at_unit [simp]: "unitsUnits (msg_value (message_at names dates vals u j)) = u"
  by (simp add: message_at_def Let_def)

lemma messages_of_length [simp]: "length (messages_of names dates vals u) = length dates"
  by (simp add: messages_of_def)

lemma messages_of_unit:
  "list_all (\<lambda>info. unitsUnits (msg_value info) = u) (messages_of names dates vals u)"
  by (simp add: messages_of_def list_all_iff)

text \<open>The dispatch of a list that is not empty begins with its first message.\<close>

lemma deliver_first:
  "\<exists>rest. fst (snd (deliver api hcore m c (info # infos))) = info # rest"
  by (auto split: prod.splits sum.splits)

text \<open>A dispatch that returns replies has dispatched every message and has a reply to
  each; a dispatch that ends with an exception has dispatched the messages up to one of
  them and no further.\<close>

lemma deliver_sent:
  "deliver api hcore m c infos = (hcore', sent, r) \<Longrightarrow>
   (case r of
      Inr rtns \<Rightarrow> sent = infos \<and> length rtns = length infos
    | Inl e \<Rightarrow> \<exists>k < length infos. sent = take (Suc k) infos)"
proof (induction infos arbitrary: hcore hcore' sent r)
  case Nil
  then show ?case by auto
next
  case (Cons info infos)
  obtain h1 r1 where sm: "Core_sendMessage api hcore m c info = (h1, r1)"
    by (cases "Core_sendMessage api hcore m c info")
  show ?case
  proof (cases r1)
    case (Inl e)
    with sm Cons.prems show ?thesis
      by (auto intro: exI [of _ 0])
  next
    case (Inr rtn)
    obtain h2 sent2 r2 where d: "deliver api h1 m c infos = (h2, sent2, r2)"
      by (cases "deliver api h1 m c infos")
    from Cons.IH [OF d] sm Inr d Cons.prems show ?thesis
      by (cases r2) (auto intro: exI [of _ "Suc k" for k])
  qed
qed

lemma after_calls_called:
  "after_calls (called w idx hcore' c) idx h cs = after_calls w idx h (c # cs)"
  by (simp add: after_calls_def called_def)

lemma called_after_calls: "called w idx hcore' c = after_calls w idx hcore' [c]"
  by (simp add: after_calls_def called_def)

lemma after_calls_none: "registry w idx = Some hcore \<Longrightarrow> after_calls w idx hcore [] = w"
  by (simp add: after_calls_def fun_upd_idem)

lemma new_calls_after_calls [simp]: "new_calls w (after_calls w idx h cs) = cs"
  by (simp add: new_calls_def after_calls_def)

text \<open>The loop of \<open>sendmessage\<close>, started at \<open>i\<close>, is the dispatch of the messages of the
  dates from \<open>i\<close> on; the vectors of the results keep what is before \<open>i\<close>.\<close>

lemma sendmessage_loop_deliver:
  "i \<le> length dates \<Longrightarrow> length vo = length dates \<Longrightarrow> length uo = length dates \<Longrightarrow>
   registry w idx = Some hcore \<Longrightarrow>
   deliver api hcore m c (map (message_at names dates vals u) [i..<length dates]) = (h2, sent, r) \<Longrightarrow>
   sendmessage_loop api names idx m c dates vals u i w hcore vo uo
   = (after_calls w idx h2 (map (Call_sendMessage idx m c) sent),
      case r of
        Inl e \<Rightarrow> Inl e
      | Inr rtns \<Rightarrow>
          Inr (take i vo @ map valUnits rtns,
               take i uo @ map (\<lambda>rtn. unitsName names (unitsUnits rtn)) rtns))"
proof (induction api names idx m c dates vals u i w hcore vo uo arbitrary: h2 sent r
    rule: sendmessage_loop.induct)
  case (1 api names idx m c dates vals u i w hcore vo uo)
  let ?msg = "message_at names dates vals u i"
  let ?call = "Call_sendMessage idx m c ?msg"
  show ?case
  proof (cases "i < length dates")
    case False
    with "1.prems" have i: "i = length dates" by simp
    with "1.prems" show ?thesis
      by (subst sendmessage_loop.simps) (auto simp: after_calls_none)
  next
    case True
    then have upt: "[i..<length dates] = i # [Suc i..<length dates]"
      by (rule upt_conv_Cons)
    obtain hcore' r1 where sm: "Core_sendMessage api hcore m c ?msg = (hcore', r1)"
      by (cases "Core_sendMessage api hcore m c ?msg")
    show ?thesis
    proof (cases r1)
      case (Inl e)
      with True sm "1.prems"(5) show ?thesis
        by (subst sendmessage_loop.simps) (auto simp: upt called_after_calls)
    next
      case (Inr rtn)
      let ?w' = "called w idx hcore' ?call"
      let ?vo = "vo[i := valUnits rtn]" and ?uo = "uo[i := unitsName names (unitsUnits rtn)]"
      have p: "Suc i \<le> length dates" "length ?vo = length dates" "length ?uo = length dates"
        "registry ?w' idx = Some hcore'"
        using True "1.prems" by (simp_all add: called_def)
      have tk: "take (Suc i) ?vo = take i vo @ [valUnits rtn]"
        "take (Suc i) ?uo = take i uo @ [unitsName names (unitsUnits rtn)]"
        using True "1.prems" by (simp_all add: take_Suc_conv_app_nth)
      obtain h3 sent3 r3 where d:
        "deliver api hcore' m c (map (message_at names dates vals u) [Suc i..<length dates])
         = (h3, sent3, r3)"
        by (cases "deliver api hcore' m c (map (message_at names dates vals u) [Suc i..<length dates])")
      have step: "sendmessage_loop api names idx m c dates vals u i w hcore vo uo
          = sendmessage_loop api names idx m c dates vals u (Suc i) ?w' hcore' ?vo ?uo"
        using True sm Inr by (subst sendmessage_loop.simps) simp
      from "1.prems"(5) sm Inr d
      have res: "h2 = h3" "sent = ?msg # sent3"
        "r = (case r3 of Inl e \<Rightarrow> Inl e | Inr rtns \<Rightarrow> Inr (rtn # rtns))"
        by (auto simp: upt split: sum.splits)
      show ?thesis
        unfolding step "1.IH" [OF True sm [symmetric] Inr p d] res
        by (cases r3) (simp_all add: tk after_calls_called)
    qed
  qed
qed

text \<open>Past its three checks, \<open>sendmessage\<close> is the dispatch of its messages.\<close>

lemma sendmessage_deliver:
  assumes live: "getcore w (coreidx env) = Some hcore"
    and len: "length vals = length dates \<or> length vals = 1"
    and unit: "unit_of_string names msgtype capability unit = Inr utype"
  shows "sendmessage api names w env msgtype capability dates vals unit
         = dispatched names w (coreidx env) msgtype capability dates
             (deliver api hcore msgtype capability (messages_of names dates vals utype))"
proof -
  from live have reg: "registry w (coreidx env) = Some hcore"
    by (simp add: getcore_def)
  obtain h2 sent r where d:
    "deliver api hcore msgtype capability (messages_of names dates vals utype) = (h2, sent, r)"
    by (cases "deliver api hcore msgtype capability (messages_of names dates vals utype)")
  then have d': "deliver api hcore msgtype capability
                   (map (message_at names dates vals utype) [0..<length dates]) = (h2, sent, r)"
    by (simp add: messages_of_def)
  have loop: "sendmessage_loop api names (coreidx env) msgtype capability dates vals utype 0 w hcore
                (replicate (length dates) 0) (replicate (length dates) [])
              = (after_calls w (coreidx env) h2
                   (map (Call_sendMessage (coreidx env) msgtype capability) sent),
                 case r of
                   Inl e \<Rightarrow> Inl e
                 | Inr rtns \<Rightarrow>
                     Inr (map valUnits rtns, map (\<lambda>rtn. unitsName names (unitsUnits rtn)) rtns))"
    using sendmessage_loop_deliver [where vo = "replicate (length dates) 0"
        and uo = "replicate (length dates) []" and names = names, OF _ _ _ reg d']
    by (cases r) simp_all
  show ?thesis
    using live len unit d
    by (cases r) (auto simp: sendmessage_def gethcore_def loop dispatched_def)
qed

lemma new_calls_dispatched [simp]:
  "new_calls w (fst (dispatched names w idx m c dates (hcore', sent, r)))
   = map (Call_sendMessage idx m c) sent"
  by (simp add: dispatched_def)

text \<open>
  Claim C9, as amended. When the unit string fails to parse: a call whose message type
  is \<open>M_SETDATA\<close> fails in every case and leaves the state as it was, no message
  dispatched; on a live instance and with a value vector of length 1 or of the length of
  the date vector its error is the invalid-unit error that names the unit and the
  capability. Under the same two conditions a call of any other message type, GETDATA
  among them, is the dispatch of its messages with the unit tag \<open>U_UNDEFINED\<close>: every
  message carries that tag, and the message of the first date, if there is a date, is
  dispatched. On a handle that is not live the call fails with the invalid-instance
  error, and on a live instance with other lengths with the length error, whatever the
  message type, with the state as it was.
\<close>

theorem C9_unit_failure:
  assumes parse: "parseUnitsName names unit = Inl e"
  shows "(msgtype = M_SETDATA names \<longrightarrow>
            fst (sendmessage api names w env msgtype capability dates vals unit) = w
            \<and> (\<exists>err. snd (sendmessage api names w env msgtype capability dates vals unit) = Inl err)
            \<and> (getcore w (coreidx env) \<noteq> None
                 \<and> (length vals = length dates \<or> length vals = 1) \<longrightarrow>
               sendmessage api names w env msgtype capability dates vals unit
                 = (w, Inl (InvalidUnit unit capability))))
         \<and> (msgtype \<noteq> M_SETDATA names \<longrightarrow>
              (\<forall>hcore. getcore w (coreidx env) = Some hcore
                   \<and> (length vals = length dates \<or> length vals = 1) \<longrightarrow>
                 sendmessage api names w env msgtype capability dates vals unit
                   = dispatched names w (coreidx env) msgtype capability dates
                       (deliver api hcore msgtype capability
                          (messages_of names dates vals U_UNDEFINED))
                 \<and> (dates \<noteq> [] \<longrightarrow>
                      take 1 (new_calls w
                                (fst (sendmessage api names w env msgtype capability dates vals unit)))
                      = [Call_sendMessage (coreidx env) msgtype capability
                           (message_at names dates vals U_UNDEFINED 0)]))
              \<and> list_all (\<lambda>info. unitsUnits (msg_value info) = U_UNDEFINED)
                   (messages_of names dates vals U_UNDEFINED))
         \<and> (getcore w (coreidx env) = None \<longrightarrow>
              sendmessage api names w env msgtype capability dates vals unit = (w, Inl InvalidCore))
         \<and> (getcore w (coreidx env) \<noteq> None
                \<and> length vals \<noteq> length dates \<and> length vals \<noteq> 1 \<longrightarrow>
              sendmessage api names w env msgtype capability dates vals unit = (w, Inl ValueLength))"
proof (cases "msgtype = M_SETDATA names")
  case True
  with parse have u: "unit_of_string names msgtype capability unit = Inl (InvalidUnit unit capability)"
    by (simp add: unit_of_string_def)
  then show ?thesis using True
    by (auto simp: sendmessage_def gethcore_def split: option.splits)
next
  case False
  with parse have u: "unit_of_string names msgtype capability unit = Inr U_UNDEFINED"
    by (simp add: unit_of_string_def)
  have "sendmessage api names w env msgtype capability dates vals unit
          = dispatched names w (coreidx env) msgtype capability dates
              (deliver api hcore msgtype capability (messages_of names dates vals U_UNDEFINED))
        \<and> (dates \<noteq> [] \<longrightarrow>
             take 1 (new_calls w
                       (fst (sendmessage api names w env msgtype capability dates vals unit)))
             = [Call_sendMessage (coreidx env) msgtype capability
                  (message_at names dates vals U_UNDEFINED 0)])"
    if live: "getcore w (coreidx env) = Some hcore"
      and len: "length vals = length dates \<or> length vals = 1" for hcore
  proof -
    note s = sendmessage_deliver [OF live len u, of api]
    have "take 1 (new_calls w
                    (fst (sendmessage api names w env msgtype capability dates vals unit)))
          = [Call_sendMessage (coreidx env) msgtype capability
               (message_at names dates vals U_UNDEFINED 0)]"
      if ne: "dates \<noteq> []"
    proof -
      from ne have m: "messages_of names dates vals U_UNDEFINED
          = message_at names dates vals U_UNDEFINED 0
            # map (message_at names dates vals U_UNDEFINED) [Suc 0..<length dates]"
        by (simp add: messages_of_def upt_conv_Cons)
      obtain h2 sent r where d: "deliver api hcore msgtype capability
          (messages_of names dates vals U_UNDEFINED) = (h2, sent, r)"
        by (cases "deliver api hcore msgtype capability (messages_of names dates vals U_UNDEFINED)")
      from deliver_first [of api hcore msgtype capability
          "message_at names dates vals U_UNDEFINED 0"
          "map (message_at names dates vals U_UNDEFINED) [Suc 0..<length dates]"] d m
      obtain rest where "sent = message_at names dates vals U_UNDEFINED 0 # rest"
        by auto
      with d show ?thesis
        unfolding s by simp
    qed
    with s show ?thesis by blast
  qed
  moreover have "sendmessage api names w env msgtype capability dates vals unit = (w, Inl InvalidCore)"
    if "getcore w (coreidx env) = None"
    using that by (simp add: sendmessage_def gethcore_def)
  moreover have "sendmessage api names w env msgtype capability dates vals unit = (w, Inl ValueLength)"
    if "getcore w (coreidx env) \<noteq> None" "length vals \<noteq> length dates \<and> length vals \<noteq> 1"
    using that by (auto simp: sendmessage_def gethcore_def)
  ultimately show ?thesis
    using u False messages_of_unit [of U_UNDEFINED names dates vals]
    by blast
qed

lemmas sendmessage_defs =
  sendmessage_def unit_of_string_def message_at_def sendmessage_loop.simps

text \<open>The unit \<open>furlong\<close> does not parse: the SETDATA call fails with the invalid-unit
  error and the world is as before; the GETDATA call dispatches its message with
  \<open>U_UNDEFINED\<close>.\<close>

theorem C9_unit_failure_witness:
  "parseUnitsName demo_names ''furlong'' = Inl UnknownUnit
   \<and> sendmessage (spec_api demo_science) demo_names demo_world demo_env
       ''SETDATA'' ''emissions'' [Some 1753] [Some 9] ''furlong''
     = (demo_world, Inl (InvalidUnit ''furlong'' ''emissions''))
   \<and> new_calls demo_world
       (fst (sendmessage (spec_api demo_science) demo_names demo_world demo_env
               ''GETDATA'' ''temp'' [Some 1752] [None] ''furlong''))
     = [Call_sendMessage 1 ''GETDATA'' ''temp''
          \<lparr>msg_date = 1752, msg_value = \<lparr>valUnits = 0, unitsUnits = U_UNDEFINED\<rparr>\<rparr>]"
proof -
  have h: "parseUnitsName demo_names ''furlong'' = Inl UnknownUnit"
    by (simp add: demo_names_def)
  have m: "''SETDATA'' = M_SETDATA demo_names"
    by (simp add: demo_names_def)
  have live: "getcore demo_world (coreidx demo_env) \<noteq> None"
    by (simp add: demo_defs)
  from C9_unit_failure [OF h, of "''SETDATA''" "spec_api demo_science" demo_world demo_env
      "''emissions''" "[Some 1753]" "[Some 9]"] m live
  have a: "sendmessage (spec_api demo_science) demo_names demo_world demo_env
             ''SETDATA'' ''emissions'' [Some 1753] [Some 9] ''furlong''
           = (demo_world, Inl (InvalidUnit ''furlong'' ''emissions''))"
    by simp
  have b: "new_calls demo_world
       (fst (sendmessage (spec_api demo_science) demo_names demo_world demo_env
               ''GETDATA'' ''temp'' [Some 1752] [None] ''furlong''))
     = [Call_sendMessage 1 ''GETDATA'' ''temp''
          \<lparr>msg_date = 1752, msg_value = \<lparr>valUnits = 0, unitsUnits = U_UNDEFINED\<rparr>\<rparr>]"
    by (simp add: demo_defs sendmessage_defs)
  from h a b show ?thesis by blast
qed

text \<open>The unit \<open>furlong\<close> does not parse, and the error of the SETDATA call is not the
  invalid-unit error: with two dates and three values it is the length error, and on a
  handle whose instance was shut down it is the invalid-instance error. The GETDATA call
  with two dates and three values dispatches no message.\<close>

theorem C9_counterexample:
  "parseUnitsName demo_names ''furlong'' = Inl UnknownUnit
   \<and> sendmessage (spec_api demo_science) demo_names demo_world demo_env
       ''SETDATA'' ''emissions'' [Some 1753, Some 1754] [Some 7, Some 8, Some 9] ''furlong''
     = (demo_world, Inl ValueLength)
   \<and> snd (sendmessage (spec_api demo_science) demo_names (fst (shutdown demo_world demo_env))
            demo_env ''SETDATA'' ''emissions'' [Some 1753] [Some 7] ''furlong'')
     = Inl InvalidCore
   \<and> sendmessage (spec_api demo_science) demo_names demo_world demo_env
       ''GETDATA'' ''temp'' [Some 1753, Some 1754] [Some 7, Some 8, Some 9] ''furlong''
     = (demo_world, Inl ValueLength)"
  by (simp add: demo_defs sendmessage_defs shutdown_def delcore_def)

text \<open>
  Claim C10, as amended. On a live instance: a call whose value vector has neither length
  1 nor the length of the date vector fails with the length error and leaves the state as
  it was, no message dispatched. Otherwise, a call whose unit string is rejected fails
  with that error, again with no message dispatched; and a call whose unit string is
  accepted is the dispatch of its messages, one for each date entry in the order of the
  dates: each goes to the state that the one before left, the first that the engine
  rejects is the last that is dispatched, and the call returns when none is rejected,
  with exactly one message for every date entry dispatched. The message of entry \<open>i\<close>
  carries the single value when the value vector has length 1 and the value of entry \<open>i\<close>
  otherwise, with 0 for \<open>NA\<close>.
\<close>

theorem C10_lengths_and_dispatch:
  assumes live: "getcore w (coreidx env) = Some hcore"
  shows "(length vals \<noteq> length dates \<and> length vals \<noteq> 1 \<longrightarrow>
            sendmessage api names w env msgtype capability dates vals unit = (w, Inl ValueLength))
         \<and> ((length vals = length dates \<or> length vals = 1) \<longrightarrow>
              (\<forall>err. unit_of_string names msgtype capability unit = Inl err \<longrightarrow>
                 sendmessage api names w env msgtype capability dates vals unit = (w, Inl err))
              \<and> (\<forall>utype. unit_of_string names msgtype capability unit = Inr utype \<longrightarrow>
                   sendmessage api names w env msgtype capability dates vals unit
                     = dispatched names w (coreidx env) msgtype capability dates
                         (deliver api hcore msgtype capability (messages_of names dates vals utype))
                   \<and> (\<forall>df. snd (sendmessage api names w env msgtype capability dates vals unit)
                              = Inr df \<longrightarrow>
                        new_calls w
                          (fst (sendmessage api names w env msgtype capability dates vals unit))
                        = map (Call_sendMessage (coreidx env) msgtype capability)
                            (messages_of names dates vals utype))
                   \<and> (\<forall>err. snd (sendmessage api names w env msgtype capability dates vals unit)
                              = Inl err \<longrightarrow>
                        (\<exists>k < length dates.
                           new_calls w
                             (fst (sendmessage api names w env msgtype capability dates vals unit))
                           = map (Call_sendMessage (coreidx env) msgtype capability)
                               (take (Suc k) (messages_of names dates vals utype))))))
         \<and> length (messages_of names dates vals utype') = length dates
         \<and> (i < length dates \<longrightarrow>
              messages_of names dates vals utype' ! i
              = \<lparr>msg_date = (case dates ! i of None \<Rightarrow> Core_undefinedIndex names | Some d \<Rightarrow> d),
                 msg_value =
                   \<lparr>valUnits = (case vals ! (if length vals = 1 then 0 else i) of
                                  None \<Rightarrow> 0 | Some x \<Rightarrow> x),
                    unitsUnits = utype'\<rparr>\<rparr>)"
proof -
  have 1: "sendmessage api names w env msgtype capability dates vals unit = (w, Inl ValueLength)"
    if "length vals \<noteq> length dates \<and> length vals \<noteq> 1"
    using live that by (simp add: sendmessage_def gethcore_def)
  have 2: "sendmessage api names w env msgtype capability dates vals unit = (w, Inl err)"
    if "length vals = length dates \<or> length vals = 1"
      and "unit_of_string names msgtype capability unit = Inl err" for err
    using live that by (auto simp: sendmessage_def gethcore_def)
  have 3: "messages_of names dates vals utype' ! i
              = \<lparr>msg_date = (case dates ! i of None \<Rightarrow> Core_undefinedIndex names | Some d \<Rightarrow> d),
                 msg_value =
                   \<lparr>valUnits = (case vals ! (if length vals = 1 then 0 else i) of
                                  None \<Rightarrow> 0 | Some x \<Rightarrow> x),
                    unitsUnits = utype'\<rparr>\<rparr>"
    if "i < length dates"
    using that by (simp add: messages_of_def message_at_def Let_def)
  have 4: "sendmessage api names w env msgtype capability dates vals unit
             = dispatched names w (coreidx env) msgtype capability dates
                 (deliver api hcore msgtype capability (messages_of names dates vals utype))
           \<and> (\<forall>df. snd (sendmessage api names w env msgtype capability dates vals unit)
                      = Inr df \<longrightarrow>
                new_calls w
                  (fst (sendmessage api names w env msgtype capability dates vals unit))
                = map (Call_sendMessage (coreidx env) msgtype capability)
                    (messages_of names dates vals utype))
           \<and> (\<forall>err. snd (sendmessage api names w env msgtype capability dates vals unit)
                      = Inl err \<longrightarrow>
                (\<exists>k < length dates.
                   new_calls w
                     (fst (sendmessage api names w env msgtype capability dates vals unit))
                   = map (Call_sendMessage (coreidx env) msgtype capability)
                       (take (Suc k) (messages_of names dates vals utype))))"
    if len: "length vals = length dates \<or> length vals = 1"
      and u: "unit_of_string names msgtype capability unit = Inr utype" for utype
  proof -
    note s = sendmessage_deliver [OF live len u, of api]
    obtain h2 sent r where d: "deliver api hcore msgtype capability
        (messages_of names dates vals utype) = (h2, sent, r)"
      by (cases "deliver api hcore msgtype capability (messages_of names dates vals utype)")
    from deliver_sent [OF d] d show ?thesis
      unfolding s
      by (cases r) (auto simp: dispatched_def)
  qed
  from 1 2 3 4 show ?thesis
    by (simp only: messages_of_length) blast
qed

text \<open>Two dates and three values: the length error. Two dates and one value: two
  messages, both with the value 7.\<close>

theorem C10_lengths_and_dispatch_witness:
  "getcore demo_world (coreidx demo_env) = Some demo_core
   \<and> sendmessage (spec_api demo_science) demo_names demo_world demo_env
       ''SETDATA'' ''emissions'' [Some 1753, Some 1754] [Some 7, Some 8, Some 9] ''PgC''
     = (demo_world, Inl ValueLength)
   \<and> new_calls demo_world
       (fst (sendmessage (spec_api demo_science) demo_names demo_world demo_env
               ''SETDATA'' ''emissions'' [Some 1753, Some 1754] [Some 7] ''PgC''))
     = [Call_sendMessage 1 ''SETDATA'' ''emissions''
          \<lparr>msg_date = 1753, msg_value = \<lparr>valUnits = 7, unitsUnits = U_PGC\<rparr>\<rparr>,
        Call_sendMessage 1 ''SETDATA'' ''emissions''
          \<lparr>msg_date = 1754, msg_value = \<lparr>valUnits = 7, unitsUnits = U_PGC\<rparr>\<rparr>]"
proof -
  have h: "getcore demo_world (coreidx demo_env) = Some demo_core"
    by (simp add: demo_defs)
  from C10_lengths_and_dispatch [OF h, of "[Some 7, Some 8, Some 9]" "[Some 1753, Some 1754]"
      "spec_api demo_science" demo_names "''SETDATA''" "''emissions''" "''PgC''"]
  have a: "sendmessage (spec_api demo_science) demo_names demo_world demo_env
       ''SETDATA'' ''emissions'' [Some 1753, Some 1754] [Some 7, Some 8, Some 9] ''PgC''
     = (demo_world, Inl ValueLength)"
    by simp
  have b: "new_calls demo_world
       (fst (sendmessage (spec_api demo_science) demo_names demo_world demo_env
               ''SETDATA'' ''emissions'' [Some 1753, Some 1754] [Some 7] ''PgC''))
     = [Call_sendMessage 1 ''SETDATA'' ''emissions''
          \<lparr>msg_date = 1753, msg_value = \<lparr>valUnits = 7, unitsUnits = U_PGC\<rparr>\<rparr>,
        Call_sendMessage 1 ''SETDATA'' ''emissions''
          \<lparr>msg_date = 1754, msg_value = \<lparr>valUnits = 7, unitsUnits = U_PGC\<rparr>\<rparr>]"
    by (simp add: demo_defs sendmessage_defs)
  from h a b show ?thesis by blast
qed

text \<open>The lengths are accepted and there are two date entries. With a unit that does
  not parse the SETDATA call dispatches no message; with a capability that the engine
  does not know the call dispatches the first message only.\<close>

theorem C10_counterexample:
  "length [Some (7::real), Some 8] = length [Some (1753::real), Some 1754]
   \<and> getcore demo_world (coreidx demo_env) = Some demo_core
   \<and> sendmessage (spec_api demo_science) demo_names demo_world demo_env
       ''SETDATA'' ''emissions'' [Some 1753, Some 1754] [Some 7, Some 8] ''furlong''
     = (demo_world, Inl (InvalidUnit ''furlong'' ''emissions''))
   \<and> new_calls demo_world
       (fst (sendmessage (spec_api demo_science) demo_names demo_world demo_env
               ''SETDATA'' ''nothing'' [Some 1753, Some 1754] [Some 7, Some 8] ''PgC''))
     = [Call_sendMessage 1 ''SETDATA'' ''nothing''
          \<lparr>msg_date = 1753, msg_value = \<lparr>valUnits = 7, unitsUnits = U_PGC\<rparr>\<rparr>]
   \<and> snd (sendmessage (spec_api demo_science) demo_names demo_world demo_env
            ''SETDATA'' ''nothing'' [Some 1753, Some 1754] [Some 7, Some 8] ''PgC'')
     = Inl (SendmessageError UnknownCapability)"
  by (simp add: demo_defs sendmessage_defs)

subsection \<open>The clock and the reset, on the engine of the specification\<close>

lemma spec_advance_date: "currDate (spec_advance ph n c) = currDate c + real n"
  by (induction n arbitrary: c) simp_all

text \<open>The run of the engine never takes the clock back.\<close>

lemma spec_run_date: "currDate c \<le> currDate (fst (spec_run ph c t))"
  by (simp add: spec_run_def spec_spinup_def Let_def spec_advance_date split: option.splits)

lemma spec_to_components_date [simp]: "currDate (fst (spec_to_components f c)) = currDate c"
  by (simp add: spec_to_components_def split: prod.splits)

text \<open>The check of \<open>run\<close>, over any engine: on a clean handle a positive target date
  before the current date is an error, and nothing is called.\<close>

lemma run_before_current_date:
  assumes "getcore w (coreidx env) = Some hcore" and "clean env"
    and "0 < t" and "t < Core_getCurrentDate api hcore"
  shows "run api w env t = (w, env, Inl (RunDate t (Core_getCurrentDate api hcore)))"
  using assms by (simp add: run_def run_checked_def gethcore_def)

lemma run_checked_spec_date:
  assumes "getcore w (coreidx env) = Some c"
  shows "\<exists>c'. getcore (fst (run_checked (spec_api ph) w env t)) (coreidx env) = Some c'
           \<and> currDate c \<le> currDate c'"
proof -
  have "currDate c \<le> currDate (fst (spec_run ph c t))" by (rule spec_run_date)
  with assms show ?thesis
    by (auto simp: run_checked_def gethcore_def spec_api_def called_def getcore_def
        split: prod.splits option.splits)
qed

lemma biome_call_spec_date:
  assumes "getcore w (coreidx env) = Some c"
  shows "\<exists>c'. getcore (fst (biome_call (spec_to_components f) k w env)) (coreidx env) = Some c'
           \<and> currDate c \<le> currDate c'"
proof -
  obtain c1 r where sc: "spec_to_components f c = (c1, r)"
    by (cases "spec_to_components f c")
  with spec_to_components_date [of f c] have "currDate c1 = currDate c" by simp
  with assms sc show ?thesis
    by (cases r) (simp_all add: biome_call_def gethcore_def called_def getcore_def)
qed

lemma sendmessage_loop_spec_date:
  "getcore w idx = Some hcore \<Longrightarrow>
   \<exists>c'. getcore (fst (sendmessage_loop (spec_api ph) names idx m c dates vals u i w hcore vo uo)) idx
           = Some c' \<and> currDate c' = currDate hcore"
proof (induction "spec_api ph" names idx m c dates vals u i w hcore vo uo
    rule: sendmessage_loop.induct)
  case (1 names idx m c dates vals u i w hcore vo uo)
  let ?msg = "message_at names dates vals u i"
  show ?case
  proof (cases "i < length dates")
    case False
    with "1.prems" show ?thesis
      by (subst sendmessage_loop.simps) simp
  next
    case True
    obtain hcore' r where sm: "Core_sendMessage (spec_api ph) hcore m c ?msg = (hcore', r)"
      by (cases "Core_sendMessage (spec_api ph) hcore m c ?msg")
    then have d: "currDate hcore' = currDate hcore"
      using spec_to_components_date [of "\<lambda>s. comp_message ph s m c ?msg" hcore]
      by (simp add: spec_api_def)
    let ?w' = "called w idx hcore' (Call_sendMessage idx m c ?msg)"
    have live': "getcore ?w' idx = Some hcore'"
      by (simp add: getcore_def called_def)
    show ?thesis
    proof (cases r)
      case (Inl e)
      with True sm d live' show ?thesis
        by (subst sendmessage_loop.simps) simp
    next
      case (Inr rtn)
      from "1.hyps" [OF True sm [symmetric] Inr live'] d True sm Inr show ?thesis
        by (subst sendmessage_loop.simps) simp
    qed
  qed
qed

lemma sendmessage_spec_date:
  assumes "getcore w (coreidx env) = Some c"
  shows "\<exists>c'. getcore (fst (sendmessage (spec_api ph) names w env msgtype capability dates vals unit))
                 (coreidx env) = Some c' \<and> currDate c \<le> currDate c'"
proof -
  from sendmessage_loop_spec_date [OF assms]
  have loop: "\<exists>c'. getcore (fst (sendmessage_loop (spec_api ph) names (coreidx env) msgtype capability
                  dates vals u 0 w c vo uo)) (coreidx env) = Some c' \<and> currDate c \<le> currDate c'"
    for u vo uo
    by (metis order_refl)
  show ?thesis
  proof (cases "length vals \<noteq> length dates \<and> length vals \<noteq> 1")
    case True
    with assms show ?thesis
      by (simp add: sendmessage_def gethcore_def)
  next
    case False
    show ?thesis
    proof (cases "unit_of_string names msgtype capability unit")
      case (Inl e)
      with False assms show ?thesis
        by (simp add: sendmessage_def gethcore_def)
    next
      case (Inr u)
      with False assms
        loop [of u "replicate (length dates) 0" "replicate (length dates) []"]
      show ?thesis
        by (simp add: sendmessage_def gethcore_def case_prod_beta split: sum.splits)
    qed
  qed
qed

text \<open>
  Claim C5, as amended. On the engine of the specification and a live instance, the
  current date does not decrease across any operation that is neither a reset nor a run
  on a handle that is not clean (such a run resets first, to the recorded reset date); and
  a run on a clean handle with a positive target date before the current date fails with
  the run-date error, with no call into the engine and the clock where it was.
\<close>

theorem C5_clock_never_regresses:
  assumes live: "getcore w (coreidx env) = Some c" and nr: "\<not> may_rewind env op"
  shows "(\<exists>c'. getcore (fst (exec (spec_api ph) names w env op)) (coreidx env) = Some c'
              \<and> currDate c \<le> currDate c')
         \<and> (clean env \<and> 0 < t \<and> t < currDate c \<longrightarrow>
              exec (spec_api ph) names w env (Run t) = (w, env, Inl (RunDate t (currDate c))))"
proof -
  have cur: "Core_getCurrentDate (spec_api ph) c = currDate c"
    by (simp add: spec_api_def)
  have 2: "exec (spec_api ph) names w env (Run t) = (w, env, Inl (RunDate t (currDate c)))"
    if "clean env" "0 < t" "t < currDate c"
    using run_before_current_date [OF live that(1), of t "spec_api ph"] that cur by simp
  have 1: "\<exists>c'. getcore (fst (exec (spec_api ph) names w env op)) (coreidx env) = Some c'
              \<and> currDate c \<le> currDate c'"
  proof (cases op)
    case (Run x)
    with nr run_checked_spec_date [OF live, of ph x] show ?thesis
      by (simp add: run_def case_prod_beta)
  next
    case (Reset x)
    with nr show ?thesis by simp
  next
    case (Sendmessage a b ds vs u)
    with sendmessage_spec_date [OF live, of ph names a b ds vs u] show ?thesis
      by (simp add: case_prod_beta)
  next
    case (Create_biome b)
    with biome_call_spec_date [OF live, of "\<lambda>s. comp_createBiome ph s b"] show ?thesis
      by (simp add: create_biome_impl_def spec_api_def case_prod_beta)
  next
    case (Delete_biome b)
    with biome_call_spec_date [OF live, of "\<lambda>s. comp_deleteBiome ph s b"] show ?thesis
      by (simp add: delete_biome_impl_def spec_api_def case_prod_beta)
  next
    case (Rename_biome a b)
    with biome_call_spec_date [OF live, of "\<lambda>s. comp_renameBiome ph s a b"] show ?thesis
      by (simp add: rename_biome_def spec_api_def case_prod_beta)
  qed (use live in simp_all)
  from 1 2 show ?thesis by blast
qed

text \<open>The state \<open>demo_core\<close> is the one that a run to 1752 leaves from the configured
  instance.\<close>

lemma demo_core_reached: "spec_run demo_science demo_fresh 1752 = (demo_core, None)"
  by (simp add: spec_run_def spec_spinup_def demo_science_def demo_fresh_def demo_core_def
      numeral_eq_Suc)

text \<open>The instance is at 1752 and the handle is clean: the run to 1751 fails and
  changes nothing; the run to 1754 advances the clock.\<close>

theorem C5_clock_never_regresses_witness:
  "getcore demo_world (coreidx demo_env) = Some demo_core
   \<and> \<not> may_rewind demo_env (Run 1754)
   \<and> exec (spec_api demo_science) demo_names demo_world demo_env (Run 1751)
     = (demo_world, demo_env, Inl (RunDate 1751 1752))
   \<and> getdate (spec_api demo_science)
       (fst (exec (spec_api demo_science) demo_names demo_world demo_env (Run 1754))) demo_env
     = Inr 1754"
proof -
  have h: "getcore demo_world (coreidx demo_env) = Some demo_core"
    by (simp add: demo_defs)
  have n: "\<not> may_rewind demo_env (Run 1754)"
    by (simp add: demo_env_def)
  have d: "currDate demo_core = 1752" and cl: "clean demo_env"
    by (simp_all add: demo_core_def demo_env_def)
  from C5_clock_never_regresses [OF h n, of demo_science demo_names 1751] d cl
  have a: "exec (spec_api demo_science) demo_names demo_world demo_env (Run 1751)
           = (demo_world, demo_env, Inl (RunDate 1751 1752))"
    by simp
  have b: "getdate (spec_api demo_science)
       (fst (exec (spec_api demo_science) demo_names demo_world demo_env (Run 1754))) demo_env
     = Inr 1754"
    by (simp add: demo_defs getdate_def run_def run_checked_def numeral_eq_Suc)
  from h n a b show ?thesis by blast
qed

text \<open>The instance is at 1752 and the handle is not clean, with reset date 0: the run
  to the positive target date 1751, before the current date, succeeds, and the clock is
  at 1751 afterwards.\<close>

theorem C5_counterexample:
  "getdate (spec_api demo_science) demo_world (demo_env\<lparr>clean := False\<rparr>) = Inr 1752
   \<and> snd (snd (exec (spec_api demo_science) demo_names demo_world (demo_env\<lparr>clean := False\<rparr>)
                 (Run 1751)))
     = Inr Done
   \<and> getdate (spec_api demo_science)
       (fst (exec (spec_api demo_science) demo_names demo_world (demo_env\<lparr>clean := False\<rparr>)
               (Run 1751)))
       (demo_env\<lparr>clean := False\<rparr>)
     = Inr 1751"
  by (simp add: demo_defs getdate_def run_def reset_def run_checked_def)

text \<open>
  Claim C7. On the engine of the specification, for a live instance that has been spun
  up: \<open>reset\<close> with no date (the default, 0) on an instance whose start date is positive
  reruns the spin-up and, when the spin-up succeeds, leaves the instance at the
  configured start date; and \<open>reset\<close> to exactly the start date does not rerun the spin-up
  (the count of spin-ups is unchanged) and leaves the instance at the start date with the
  state of the components that the spin-up left.
\<close>

theorem C7_reset_to_start:
  assumes live: "getcore w (coreidx env) = Some c" and snap: "snapshot c = Some s0"
  shows "(0 < startDate c \<and> comp_spinup ph (initial c) \<noteq> None \<longrightarrow>
            (\<exists>c'. getcore (fst (reset_default (spec_api ph) w env)) (coreidx env) = Some c'
                 \<and> snd (snd (reset_default (spec_api ph) w env)) = Inr ()
                 \<and> currDate c' = startDate c \<and> spinups c' = spinups c + 1))
         \<and> (\<exists>c'. getcore (fst (reset (spec_api ph) w env (startDate c))) (coreidx env) = Some c'
                 \<and> snd (snd (reset (spec_api ph) w env (startDate c))) = Inr ()
                 \<and> currDate c' = startDate c \<and> components c' = s0
                 \<and> snapshot c' = Some s0 \<and> spinups c' = spinups c)"
  using live snap
  by (auto simp: reset_default_def reset_def gethcore_def spec_api_def spec_reset_def
      spec_spinup_def called_def getcore_def split: option.splits)

text \<open>The instance is at 1752, its components at 2, after one spin-up that left them
  at 0.\<close>

theorem C7_reset_to_start_witness:
  "getcore demo_world (coreidx demo_env) = Some demo_core
   \<and> snapshot demo_core = Some 0
   \<and> getcore (fst (reset_default (spec_api demo_science) demo_world demo_env)) 1
     = Some (demo_core\<lparr>currDate := 1750, components := 0, checkpoints := [], spinups := 2\<rparr>)
   \<and> getcore (fst (reset (spec_api demo_science) demo_world demo_env 1750)) 1
     = Some (demo_core\<lparr>currDate := 1750, components := 0, checkpoints := []\<rparr>)"
proof -
  have h: "getcore demo_world (coreidx demo_env) = Some demo_core"
    by (simp add: demo_defs)
  have s: "snapshot demo_core = Some 0"
    by (simp add: demo_core_def)
  have a: "getcore (fst (reset_default (spec_api demo_science) demo_world demo_env)) 1
     = Some (demo_core\<lparr>currDate := 1750, components := 0, checkpoints := [], spinups := 2\<rparr>)"
    by (simp add: demo_defs reset_default_def reset_def)
  have b: "getcore (fst (reset (spec_api demo_science) demo_world demo_env 1750)) 1
     = Some (demo_core\<lparr>currDate := 1750, components := 0, checkpoints := []\<rparr>)"
    by (simp add: demo_defs reset_def)
  from C7_reset_to_start [OF h s, of demo_science] h s a b show ?thesis
    by blast
qed

subsection \<open>A run, a reset to the start and the same run again\<close>

text \<open>The advance of the clock changes the date, the state of the components and the
  checkpoints, and nothing else of the instance.\<close>

lemma spec_advance_fields [simp]:
  "startDate (spec_advance ph n c) = startDate c"
  "endDate (spec_advance ph n c) = endDate c"
  "initial (spec_advance ph n c) = initial c"
  "snapshot (spec_advance ph n c) = snapshot c"
  "spinups (spec_advance ph n c) = spinups c"
  "Core.more (spec_advance ph n c) = Core.more c"
  by (induction n arbitrary: c) simp_all






end
